theory Spec2Isabelle
  imports Main
begin

section \<open>Python values that the extractor handles\<close>

text \<open>
  The model follows \<^verbatim>\<open>src/extractors/facebook_parser.py\<close>. Python strings are
  modelled as \<open>string\<close>: a character is a code point below 256, and the character
  classes below are Python's \<^verbatim>\<open>\d\<close>, \<^verbatim>\<open>str.isdigit\<close>, \<^verbatim>\<open>str.strip\<close> and
  \<^verbatim>\<open>str.lower\<close> on these code points. Text with code points from 256 on is outside
  the model.

  Every exception the source can raise is a value of \<open>pyerr\<close>; a computation that
  may raise has the type \<open>pyerr + 'a\<close>, with \<open>Inl\<close> for the raised exception.
  These are instances of \<^verbatim>\<open>Exception\<close>, which the handlers of the source catch: a
  failed read of the page, the \<^verbatim>\<open>ValueError\<close> of \<^verbatim>\<open>float\<close> and the
  \<^verbatim>\<open>OverflowError\<close> of \<^verbatim>\<open>int\<close>.
\<close>

datatype pyerr = PlaywrightError | ValueError | OverflowError

definition is_digit :: "char \<Rightarrow> bool" where
  "is_digit c = (c \<in> set ''0123456789'')"

definition digit_val :: "char \<Rightarrow> nat" where
  "digit_val c = of_char c - of_char (CHR ''0'')"

definition digits_to_nat :: "string \<Rightarrow> nat" where
  "digits_to_nat ds = foldl (\<lambda>acc c. 10 * acc + digit_val c) 0 ds"

subsection \<open>Floating-point numbers\<close>

text \<open>
  \<^verbatim>\<open>_parse_engagement_number\<close> computes with Python floats (IEEE 754 binary64).
  Only non-negative values occur there, and no NaN. A finite float is \<open>Finite m e\<close>,
  standing for \<open>m * 2 ^ e\<close>; \<open>round_to_double n d\<close> is the float nearest to the
  fraction \<open>n / d\<close> (ties to even, 53 significant bits, subnormals below
  \<open>2 ^ - 1022\<close>, infinity from \<open>2 ^ 1024 - 2 ^ 970\<close> on). Both \<^verbatim>\<open>float(str)\<close>
  and float multiplication are correctly rounded, so each is one application of
  \<open>round_to_double\<close> to the exact value.
\<close>

datatype pyfloat = Finite nat int | Infinity

fun bitlen :: "nat \<Rightarrow> nat" where
  "bitlen n = (if n = 0 then 0 else Suc (bitlen (n div 2)))"

text \<open>\<open>floor_log2 n d\<close> is the integer \<open>k\<close> with \<open>2 ^ k \<le> n / d < 2 ^ (k + 1)\<close>, for positive \<open>n\<close> and \<open>d\<close>.\<close>

definition floor_log2 :: "nat \<Rightarrow> nat \<Rightarrow> int" where
  "floor_log2 n d =
     (let a = int (bitlen n) - int (bitlen d) in
      if (if 0 \<le> a then d * 2 ^ nat a \<le> n else d \<le> n * 2 ^ nat (- a)) then a else a - 1)"

definition round_half_even :: "nat \<Rightarrow> nat \<Rightarrow> nat" where
  "round_half_even num den =
     (let q = num div den; r = num mod den in
      if 2 * r < den then q
      else if den < 2 * r then q + 1
      else if even q then q else q + 1)"

definition round_to_double :: "nat \<Rightarrow> nat \<Rightarrow> pyfloat" where
  "round_to_double n d =
     (if n = 0 then Finite 0 0
      else
        let e = max (floor_log2 n d - 52) (- 1074);
            m = (if 0 \<le> e then round_half_even n (d * 2 ^ nat e)
                 else round_half_even (n * 2 ^ nat (- e)) d)
        in if 971 < e \<or> (e = 971 \<and> 2 ^ 53 \<le> m) then Infinity else Finite m e)"

text \<open>\<^verbatim>\<open>value * multiplier\<close>: the integer multiplier converts to a float exactly.\<close>

definition float_mul :: "pyfloat \<Rightarrow> nat \<Rightarrow> pyfloat" where
  "float_mul x k =
     (case x of
        Infinity \<Rightarrow> Infinity
      | Finite m e \<Rightarrow>
          if 0 \<le> e then round_to_double (m * k * 2 ^ nat e) 1
          else round_to_double (m * k) (2 ^ nat (- e)))"

text \<open>\<^verbatim>\<open>int(x)\<close> truncates; on infinity it raises \<^verbatim>\<open>OverflowError\<close>.\<close>

definition py_int :: "pyfloat \<Rightarrow> pyerr + int" where
  "py_int x =
     (case x of
        Infinity \<Rightarrow> Inl OverflowError
      | Finite m e \<Rightarrow>
          Inr (int (if 0 \<le> e then m * 2 ^ nat e else m div 2 ^ nat (- e))))"

text \<open>
  \<^verbatim>\<open>float(number_str)\<close> on the strings that reach it: \<^verbatim>\<open>number_str\<close> is a
  non-empty run of digits, dots and commas with the commas removed. Python accepts
  digits with at most one dot and at least one digit (\<^verbatim>\<open>"12"\<close>, \<^verbatim>\<open>"12."\<close>,
  \<^verbatim>\<open>".5"\<close>, \<^verbatim>\<open>"1.5"\<close>) and raises \<^verbatim>\<open>ValueError\<close> on the rest
  (\<^verbatim>\<open>""\<close>, \<^verbatim>\<open>"."\<close>, \<^verbatim>\<open>"1.2.3"\<close>).
\<close>

definition py_float :: "string \<Rightarrow> pyerr + pyfloat" where
  "py_float s =
     (let ip = takeWhile is_digit s; rest = dropWhile is_digit s in
      case rest of
        [] \<Rightarrow> if ip = [] then Inl ValueError else Inr (round_to_double (digits_to_nat ip) 1)
      | c # fp \<Rightarrow>
          if c = CHR ''.'' \<and> list_all is_digit fp \<and> (ip \<noteq> [] \<or> fp \<noteq> [])
          then Inr (round_to_double (digits_to_nat (ip @ fp)) (10 ^ length fp))
          else Inl ValueError)"

section \<open>The engagement-count parser\<close>

text \<open>
  \<^verbatim>\<open>re.search(r"([\d.,]+)\s*[KkMm]?", text)\<close>: the pattern after the group can match
  the empty string, so the search succeeds exactly when the text has a character of
  \<^verbatim>\<open>[\d.,]\<close>, and group 1 is the longest run of such characters that starts at the
  first of them.
\<close>

definition is_number_char :: "char \<Rightarrow> bool" where
  "is_number_char c = (is_digit c \<or> c = CHR ''.'' \<or> c = CHR '','')"

definition search_number :: "string \<Rightarrow> string option" where
  "search_number txt =
     (case dropWhile (\<lambda>c. \<not> is_number_char c) txt of
        [] \<Rightarrow> None
      | cs \<Rightarrow> Some (takeWhile is_number_char cs))"

text \<open>
  \<^verbatim>\<open>_parse_engagement_number\<close> (lines 197--217). The two later searches,
  \<^verbatim>\<open>re.search(r"[Kk]", text)\<close> and \<^verbatim>\<open>re.search(r"[Mm]", text)\<close>, look at the whole
  text, not at what follows the number. The result is \<open>Inr None\<close> for Python's
  \<^verbatim>\<open>None\<close>; the only exception that escapes is the \<^verbatim>\<open>OverflowError\<close> of
  \<^verbatim>\<open>int\<close>.
\<close>

definition parse_engagement_number :: "string \<Rightarrow> pyerr + int option" where
  "parse_engagement_number txt =
     (case search_number txt of
        None \<Rightarrow> Inr None
      | Some group1 \<Rightarrow>
          let number_str = filter (\<lambda>c. c \<noteq> CHR '','') group1 in
          (case py_float number_str of
             Inl _ \<Rightarrow> Inr None
           | Inr v \<Rightarrow>
               let multiplier =
                     (if list_ex (\<lambda>c. c = CHR ''K'' \<or> c = CHR ''k'') txt then 1000
                      else if list_ex (\<lambda>c. c = CHR ''M'' \<or> c = CHR ''m'') txt then 1000000
                      else 1)
               in (case py_int (float_mul v multiplier) of
                     Inl err \<Rightarrow> Inl err
                   | Inr i \<Rightarrow> Inr (Some i))))"

section \<open>Strings, dictionaries and the page\<close>

text \<open>Truthiness of an \<^verbatim>\<open>Optional[str]\<close>, and \<^verbatim>\<open>x or ""\<close>.\<close>

definition truthy :: "string option \<Rightarrow> bool" where
  "truthy s = (case s of None \<Rightarrow> False | Some t \<Rightarrow> t \<noteq> [])"

definition or_empty :: "string option \<Rightarrow> string" where
  "or_empty s = (case s of None \<Rightarrow> [] | Some t \<Rightarrow> t)"

text \<open>
  The characters that \<^verbatim>\<open>str.strip()\<close> removes: the code points below 256 on which
  \<^verbatim>\<open>str.isspace()\<close> holds, with the next-line control and the no-break space.
\<close>

definition is_space :: "char \<Rightarrow> bool" where
  "is_space c =
     (c \<in> set [CHR 0x09, CHR 0x0A, CHR 0x0B, CHR 0x0C, CHR 0x0D,
                CHR 0x1C, CHR 0x1D, CHR 0x1E, CHR 0x1F, CHR 0x20, CHR 0x85, CHR 0xA0])"

definition py_strip :: "string \<Rightarrow> string" where
  "py_strip s = rev (dropWhile is_space (rev (dropWhile is_space s)))"

text \<open>
  \<^verbatim>\<open>str.lower()\<close> on one character: the letters \<^verbatim>\<open>A\<close> to \<^verbatim>\<open>Z\<close> and the
  accented capitals 192 to 222, without the multiplication sign 215, map to the code
  point 32 above.
\<close>

definition to_lower :: "char \<Rightarrow> char" where
  "to_lower c =
     (case map_of
        (zip (''ABCDEFGHIJKLMNOPQRSTUVWXYZ'' @
              [CHR 0xC0, CHR 0xC1, CHR 0xC2, CHR 0xC3, CHR 0xC4, CHR 0xC5, CHR 0xC6,
               CHR 0xC7, CHR 0xC8, CHR 0xC9, CHR 0xCA, CHR 0xCB, CHR 0xCC, CHR 0xCD,
               CHR 0xCE, CHR 0xCF, CHR 0xD0, CHR 0xD1, CHR 0xD2, CHR 0xD3, CHR 0xD4,
               CHR 0xD5, CHR 0xD6, CHR 0xD8, CHR 0xD9, CHR 0xDA, CHR 0xDB, CHR 0xDC,
               CHR 0xDD, CHR 0xDE])
             (''abcdefghijklmnopqrstuvwxyz'' @
              [CHR 0xE0, CHR 0xE1, CHR 0xE2, CHR 0xE3, CHR 0xE4, CHR 0xE5, CHR 0xE6,
               CHR 0xE7, CHR 0xE8, CHR 0xE9, CHR 0xEA, CHR 0xEB, CHR 0xEC, CHR 0xED,
               CHR 0xEE, CHR 0xEF, CHR 0xF0, CHR 0xF1, CHR 0xF2, CHR 0xF3, CHR 0xF4,
               CHR 0xF5, CHR 0xF6, CHR 0xF8, CHR 0xF9, CHR 0xFA, CHR 0xFB, CHR 0xFC,
               CHR 0xFD, CHR 0xFE])) c of
        None \<Rightarrow> c
      | Some l \<Rightarrow> l)"

definition py_lower :: "string \<Rightarrow> string" where
  "py_lower s = map to_lower s"

text \<open>\<^verbatim>\<open>needle in hay\<close> on strings.\<close>

fun contains :: "string \<Rightarrow> string \<Rightarrow> bool" where
  "contains needle [] = (needle = [])"
| "contains needle (c # cs) =
     (take (length needle) (c # cs) = needle \<or> contains needle cs)"

text \<open>\<^verbatim>\<open>str(n)\<close> for an integer.\<close>

fun str_nat :: "nat \<Rightarrow> string" where
  "str_nat n =
     (if n < 10 then [''0123456789'' ! n]
      else str_nat (n div 10) @ [''0123456789'' ! (n mod 10)])"

definition str_int :: "int \<Rightarrow> string" where
  "str_int i = (if i < 0 then CHR ''-'' # str_nat (nat (- i)) else str_nat (nat i))"

text \<open>
  \<^verbatim>\<open>str.isdigit()\<close> holds for a non-empty string of the digits \<^verbatim>\<open>0\<close> to
  \<^verbatim>\<open>9\<close> and the superscript digits 178, 179 and 185.
\<close>

definition isdigit :: "string \<Rightarrow> bool" where
  "isdigit s =
     (s \<noteq> [] \<and> list_all (\<lambda>c. is_digit c \<or> c \<in> set [CHR 0xB2, CHR 0xB3, CHR 0xB9]) s)"

text \<open>
  \<^verbatim>\<open>int(s)\<close> on a string that passed \<^verbatim>\<open>isdigit\<close>: a \<^verbatim>\<open>ValueError\<close> for a
  superscript digit, and for more digits (leading zeros count) than the interpreter's
  \<^verbatim>\<open>sys.get_int_max_str_digits()\<close> allows; this limit is 4300 unless configured, and
  0 stands for no limit, which is also the behaviour of interpreters before 3.11.
\<close>

definition int_of_digits :: "nat \<Rightarrow> string \<Rightarrow> pyerr + int" where
  "int_of_digits max_str_digits s =
     (if \<not> list_all is_digit s then Inl ValueError
      else if 0 < max_str_digits \<and> max_str_digits < length s then Inl ValueError
      else Inr (int (digits_to_nat s)))"

text \<open>
  What \<^verbatim>\<open>json.loads\<close> returns, as far as \<^verbatim>\<open>_safe_get_nested\<close> looks at it: a
  dictionary (its values up to \<^verbatim>\<open>str\<close>) or something else. \<open>PyObject r\<close> is any
  value that is not \<^verbatim>\<open>None\<close>, a string, an integer or a boolean (a float, a list, a
  nested dictionary), with the string \<open>r\<close> that \<^verbatim>\<open>str\<close> returns on it.
\<close>

datatype pyvalue = PyNone | PyBool bool | PyInt int | PyStr string | PyObject string

datatype json_value = JsonDict "string \<Rightarrow> pyvalue option" | JsonOther

definition py_str :: "pyvalue \<Rightarrow> string" where
  "py_str v =
     (case v of
        PyNone \<Rightarrow> ''None''
      | PyBool b \<Rightarrow> (if b then ''True'' else ''False'')
      | PyInt i \<Rightarrow> str_int i
      | PyStr s \<Rightarrow> s
      | PyObject r \<Rightarrow> r)"

text \<open>
  What the program reads from its environment and cannot compute itself:
  \<^verbatim>\<open>json.loads\<close> (\<open>None\<close> when it raises), the interpreter's string hash, which
  is salted once per process and is a function of the string from then on, and the
  interpreter's limit on the digits of an integer.
\<close>

record env =
  json_loads :: "string \<Rightarrow> json_value option"
  py_hash :: "string \<Rightarrow> int"
  int_max_str_digits :: nat

text \<open>
  A Playwright handle, as the results of the reads the parser performs on it: each
  read returns or raises. A \<^verbatim>\<open>Page\<close> offers the same queries and is modelled by the
  same type.
\<close>

datatype element = Element
  (get_attribute: "string \<Rightarrow> pyerr + string option")
  (inner_text: "pyerr + string")
  (query_selector: "string \<Rightarrow> pyerr + element option")
  (query_selector_all: "string \<Rightarrow> pyerr + element list")

text \<open>Sequencing of reads: the first exception ends the computation.\<close>

definition await :: "pyerr + 'a \<Rightarrow> ('a \<Rightarrow> pyerr + 'b) \<Rightarrow> pyerr + 'b" where
  "await m f = (case m of Inl err \<Rightarrow> Inl err | Inr x \<Rightarrow> f x)"

section \<open>The post record\<close>

text \<open>The dataclass \<^verbatim>\<open>FacebookPost\<close>; its field \<^verbatim>\<open>text\<close> is \<open>post_text\<close> here.\<close>

record facebook_post =
  facebookUrl :: "string option"
  pageId :: "string option"
  postId :: "string option"
  pageName :: "string option"
  url :: "string option"
  time :: "string option"
  timestamp :: "int option"
  likes :: "int option"
  comments :: "int option"
  shares :: "int option"
  post_text :: "string option"
  link :: "string option"
  thumb :: "string option"
  topLevelUrl :: "string option"

section \<open>Parsing one article\<close>

text \<open>\<^verbatim>\<open>_safe_get_nested\<close> (lines 219--230).\<close>

fun safe_get_nested_keys :: "(string \<Rightarrow> pyvalue option) \<Rightarrow> string list \<Rightarrow> string option" where
  "safe_get_nested_keys d [] = None"
| "safe_get_nested_keys d (key # keys) =
     (case d key of
        None \<Rightarrow> safe_get_nested_keys d keys
      | Some v \<Rightarrow> (if v \<noteq> PyNone then Some (py_str v) else None))"

definition safe_get_nested :: "json_value \<Rightarrow> string list \<Rightarrow> string option" where
  "safe_get_nested data keys =
     (case data of JsonOther \<Rightarrow> None | JsonDict d \<Rightarrow> safe_get_nested_keys d keys)"

text \<open>Lines 87--95: the metadata attribute, \<^verbatim>\<open>{}\<close> when absent, empty or malformed.\<close>

definition load_data_ft :: "env \<Rightarrow> string option \<Rightarrow> json_value" where
  "load_data_ft ev data_ft_raw =
     (if truthy data_ft_raw then
        (case json_loads ev (or_empty data_ft_raw) of
           None \<Rightarrow> JsonDict Map.empty
         | Some v \<Rightarrow> v)
      else JsonDict Map.empty)"

text \<open>Lines 101--105: \<open>(facebookUrl, pageName)\<close>.\<close>

definition read_page_link :: "element option \<Rightarrow> pyerr + (string option \<times> string option)" where
  "read_page_link page_link =
     (case page_link of
        None \<Rightarrow> Inr (None, None)
      | Some pl \<Rightarrow>
          await (get_attribute pl ''href'') (\<lambda>href.
          await (inner_text pl) (\<lambda>name.
          Inr (href, if name = [] then None else Some name))))"

text \<open>Lines 107--111: \<^verbatim>\<open>url\<close>, which is also \<^verbatim>\<open>topLevelUrl\<close>.\<close>

definition read_post_link :: "element option \<Rightarrow> pyerr + string option" where
  "read_post_link post_link =
     (case post_link of None \<Rightarrow> Inr None | Some pl \<Rightarrow> get_attribute pl ''href'')"

text \<open>
  Lines 115--139: \<open>(time_str, timestamp)\<close>. No read of the time node can raise out
  of this part, and the \<^verbatim>\<open>ValueError\<close> of \<^verbatim>\<open>int\<close> is caught at line 135 with the
  read errors. \<open>now\<close> is the value of \<^verbatim>\<open>int(time.time())\<close>. The test
  \<^verbatim>\<open>if not timestamp\<close> holds for \<^verbatim>\<open>None\<close> and for \<^verbatim>\<open>0\<close>.
\<close>

definition read_time :: "env \<Rightarrow> int \<Rightarrow> element option \<Rightarrow> string option \<times> int" where
  "read_time ev now time_node =
     (case time_node of
        None \<Rightarrow> (None, now)
      | Some tn \<Rightarrow>
          let time_str0 = (case get_attribute tn ''datetime'' of Inl _ \<Rightarrow> None | Inr v \<Rightarrow> v);
              time_str =
                (if truthy time_str0 then time_str0
                 else (case inner_text tn of Inl _ \<Rightarrow> None | Inr t \<Rightarrow> Some t));
              ts =
                (case get_attribute tn ''data-utime'' of
                   Inl _ \<Rightarrow> None
                 | Inr time_attr \<Rightarrow>
                     if truthy time_attr \<and> isdigit (or_empty time_attr)
                     then (case int_of_digits (int_max_str_digits ev) (or_empty time_attr) of
                             Inl _ \<Rightarrow> None
                           | Inr t \<Rightarrow> Some t)
                     else None)
          in (time_str, case ts of None \<Rightarrow> now | Some t \<Rightarrow> if t = 0 then now else t))"

text \<open>Lines 144--154: the inner text, or an attribute, of an optional node.\<close>

definition read_inner_text :: "element option \<Rightarrow> pyerr + string option" where
  "read_inner_text node =
     (case node of None \<Rightarrow> Inr None | Some n \<Rightarrow> await (inner_text n) (\<lambda>t. Inr (Some t)))"

definition read_attribute :: "element option \<Rightarrow> string \<Rightarrow> pyerr + string option" where
  "read_attribute node name =
     (case node of None \<Rightarrow> Inr None | Some n \<Rightarrow> get_attribute n name)"

text \<open>
  \<^verbatim>\<open>_parse_engagement\<close> (lines 164--195): a node whose text cannot be read is passed
  over; an exception of the number parser is not caught here.
\<close>

fun engagement_loop ::
  "element list \<Rightarrow> int option \<times> int option \<times> int option \<Rightarrow>
     pyerr + (int option \<times> int option \<times> int option)" where
  "engagement_loop [] acc = Inr acc"
| "engagement_loop (node # nodes) (likes0, comments0, shares0) =
     (case inner_text node of
        Inl _ \<Rightarrow> engagement_loop nodes (likes0, comments0, shares0)
      | Inr t \<Rightarrow>
          let txt = py_strip t; lower = py_lower txt in
          if contains ''like'' lower then
            (case parse_engagement_number txt of
               Inl err \<Rightarrow> Inl err
             | Inr v \<Rightarrow>
                 engagement_loop nodes
                   (if v \<noteq> None then v else likes0, comments0, shares0))
          else if contains ''comment'' lower then
            (case parse_engagement_number txt of
               Inl err \<Rightarrow> Inl err
             | Inr v \<Rightarrow>
                 engagement_loop nodes
                   (likes0, if v \<noteq> None then v else comments0, shares0))
          else if contains ''share'' lower then
            (case parse_engagement_number txt of
               Inl err \<Rightarrow> Inl err
             | Inr v \<Rightarrow>
                 engagement_loop nodes
                   (likes0, comments0, if v \<noteq> None then v else shares0))
          else engagement_loop nodes (likes0, comments0, shares0))"

definition parse_engagement ::
  "element \<Rightarrow> pyerr + (int option \<times> int option \<times> int option)" where
  "parse_engagement article =
     await (query_selector_all article ''span[dir='auto'], div[dir='auto']'') (\<lambda>nodes.
     engagement_loop nodes (None, None, None))"

text \<open>\<^verbatim>\<open>_parse_article\<close> (lines 82--162), the reads in the order of the source.\<close>

definition parse_article :: "env \<Rightarrow> int \<Rightarrow> element \<Rightarrow> pyerr + facebook_post" where
  "parse_article ev now article =
     await (get_attribute article ''data-ft'') (\<lambda>data_ft_raw.
     let data_ft = load_data_ft ev data_ft_raw in
     await (query_selector article ''h3 a[href*='facebook.com/']'') (\<lambda>page_link.
     await (read_page_link page_link) (\<lambda>(facebook_url, page_name).
     await (query_selector article ''a[href*='/posts/'], a[href*='pfbid']'') (\<lambda>post_link.
     await (read_post_link post_link) (\<lambda>post_url.
     await (query_selector article ''a[aria-label*=' at '], a[role='link'] time'') (\<lambda>time_node.
     let (time_str, ts) = read_time ev now time_node in
     await (query_selector article ''div[dir='auto'] span, div[dir='auto']'') (\<lambda>text_node.
     await (read_inner_text text_node) (\<lambda>body.
     await (query_selector article ''a[rel~='noopener'], a[rel~='nofollow']'') (\<lambda>link_node.
     await (read_attribute link_node ''href'') (\<lambda>link_href.
     await (query_selector article ''img[src][referrerpolicy]'') (\<lambda>thumb_node.
     await (read_attribute thumb_node ''src'') (\<lambda>thumb_src.
     await (parse_engagement article) (\<lambda>(likes0, comments0, shares0).
     Inr \<lparr> facebookUrl = facebook_url,
           pageId = safe_get_nested data_ft [''page_id'', ''page_id''],
           postId = safe_get_nested data_ft [''top_level_post_id'', ''mf_story_key''],
           pageName = page_name,
           url = post_url,
           time = time_str,
           timestamp = Some ts,
           likes = likes0,
           comments = comments0,
           shares = shares0,
           post_text = body,
           link = link_href,
           thumb = thumb_src,
           topLevelUrl = post_url \<rparr>)))))))))))))"

section \<open>Extracting the posts of a page\<close>

text \<open>
  Lines 64--69: the identifier a parsed post is admitted under; \<open>None\<close> is the
  \<^verbatim>\<open>continue\<close> of line 68.
\<close>

definition resolve_post_id :: "env \<Rightarrow> facebook_post \<Rightarrow> string option" where
  "resolve_post_id ev post =
     (if truthy (postId post) then postId post
      else
        let base = or_empty (post_text post) @ or_empty (url post) in
        if py_strip base = [] then None
        else Some (str_int (abs (py_hash ev base))))"

text \<open>
  The body of the \<^verbatim>\<open>try\<close> (lines 63--73) for one article: it ends in a
  \<^verbatim>\<open>continue\<close>, in an exception (caught at line 74), or with a post appended and
  its identifier added to the set. The article comes with the clock reading of its
  parse.
\<close>

datatype outcome = Skipped | Raised pyerr | Admitted string facebook_post

definition try_article :: "env \<Rightarrow> string set \<Rightarrow> element \<times> int \<Rightarrow> outcome" where
  "try_article ev seen a =
     (case parse_article ev (snd a) (fst a) of
        Inl err \<Rightarrow> Raised err
      | Inr post \<Rightarrow>
          (case resolve_post_id ev post of
             None \<Rightarrow> Skipped
           | Some pid \<Rightarrow>
               if pid \<in> seen then Skipped
               else Admitted pid (post\<lparr>postId := Some pid\<rparr>)))"

text \<open>Line 77: \<^verbatim>\<open>max_posts is not None and len(posts) >= max_posts\<close>.\<close>

definition limit_reached :: "int option \<Rightarrow> facebook_post list \<Rightarrow> bool" where
  "limit_reached max_posts posts =
     (case max_posts of None \<Rightarrow> False | Some m \<Rightarrow> m \<le> int (length posts))"

text \<open>
  The loop of lines 61--78, from any of its states \<open>(seen, posts)\<close>. A
  \<^verbatim>\<open>continue\<close> goes to the next article without the test of line 77; a caught
  exception and an admission go through it.
\<close>

fun extract_loop ::
  "env \<Rightarrow> int option \<Rightarrow> (element \<times> int) list \<Rightarrow> string set \<Rightarrow> facebook_post list \<Rightarrow>
     facebook_post list \<times> string set" where
  "extract_loop ev max_posts [] seen posts = (posts, seen)"
| "extract_loop ev max_posts (a # as) seen posts =
     (case try_article ev seen a of
        Skipped \<Rightarrow> extract_loop ev max_posts as seen posts
      | Raised err \<Rightarrow>
          if limit_reached max_posts posts then (posts, seen)
          else extract_loop ev max_posts as seen posts
      | Admitted pid post \<Rightarrow>
          if limit_reached max_posts (posts @ [post]) then (posts @ [post], insert pid seen)
          else extract_loop ev max_posts as (insert pid seen) (posts @ [post]))"

text \<open>
  \<^verbatim>\<open>extract_posts\<close> (lines 40--80). \<open>clock i\<close> is the value of
  \<^verbatim>\<open>int(time.time())\<close> while the \<open>i\<close>-th handle is parsed. The result is the
  returned list and the set as the call leaves it; the query of line 59 is outside the
  \<^verbatim>\<open>try\<close>, so its exception reaches the caller.
\<close>

definition extract_posts ::
  "env \<Rightarrow> (nat \<Rightarrow> int) \<Rightarrow> element \<Rightarrow> string set option \<Rightarrow> int option \<Rightarrow>
     pyerr + (facebook_post list \<times> string set)" where
  "extract_posts ev clock page seen_post_ids max_posts =
     (let seen = (case seen_post_ids of None \<Rightarrow> {} | Some s \<Rightarrow> s) in
      await (query_selector_all page ''div[role='article']'') (\<lambda>article_handles.
      Inr (extract_loop ev max_posts
             (zip article_handles (map clock [0 ..< length article_handles])) seen [])))"

text \<open>
  A session of passes that share the set of identifiers: each pass is a call of
  \<^verbatim>\<open>extract_posts\<close> on the page as it is then, with its own clock and limit, and
  with the set as the pass before left it. The exception of a pass ends the session.
  The result is the list of the lists that the passes returned, and the final set.
\<close>

fun session ::
  "env \<Rightarrow> ((nat \<Rightarrow> int) \<times> element \<times> int option) list \<Rightarrow> string set \<Rightarrow>
     facebook_post list list \<times> string set" where
  "session ev [] seen = ([], seen)"
| "session ev ((clock, page, max_posts) # passes) seen =
     (case extract_posts ev clock page (Some seen) max_posts of
        Inl err \<Rightarrow> ([], seen)
      | Inr (posts, seen') \<Rightarrow>
          (posts # fst (session ev passes seen'), snd (session ev passes seen')))"

section \<open>The scroll loop\<close>

text \<open>
  Modelled from the spec: the Scroll-Extraction Coordinator. Its source
  (\<^verbatim>\<open>extractors/scroll_manager.py\<close>, imported by \<^verbatim>\<open>main.py\<close>) is not among the
  files, so the loop below follows section 4.3 of the specification: one iteration
  scrolls, waits, takes the page as it is then, calls the extractor with the session's
  set and the limit \<^verbatim>\<open>maxPosts - len(results)\<close>, appends what was admitted, and
  stops when the target is reached, when the iteration count reaches the maximum
  scroll count, or when no record was admitted for the configured number of
  consecutive iterations, tested in this order. A failure of the automation surface is
  fatal and ends the session.

  \<open>pages i\<close> is the page after scroll \<open>i + 1\<close> and \<open>clocks i\<close> the clock of that
  pass. The result is the error of an aborted session, the accumulated records and
  the number of iterations performed.
\<close>

record scroll_config =
  max_scroll :: nat
  stall_threshold :: nat

function scroll_loop ::
  "scroll_config \<Rightarrow> env \<Rightarrow> (nat \<Rightarrow> nat \<Rightarrow> int) \<Rightarrow> (nat \<Rightarrow> element) \<Rightarrow> int \<Rightarrow>
     nat \<Rightarrow> facebook_post list \<Rightarrow> string set \<Rightarrow> nat \<Rightarrow>
     pyerr option \<times> facebook_post list \<times> nat" where
  "scroll_loop cfg ev clocks pages max_posts i results seen stalled =
     (case extract_posts ev (clocks i) (pages i) (Some seen)
             (Some (max_posts - int (length results))) of
        Inl err \<Rightarrow> (Some err, results, Suc i)
      | Inr (admitted, seen') \<Rightarrow>
          if max_posts \<le> int (length (results @ admitted)) then (None, results @ admitted, Suc i)
          else if max_scroll cfg \<le> Suc i then (None, results @ admitted, Suc i)
          else if stall_threshold cfg \<le> (if admitted = [] then Suc stalled else 0)
          then (None, results @ admitted, Suc i)
          else scroll_loop cfg ev clocks pages max_posts (Suc i) (results @ admitted) seen'
                 (if admitted = [] then Suc stalled else 0))"
  by pat_completeness auto
termination
  by (relation "measure (\<lambda>(cfg, ev, clocks, pages, max_posts, i, results, seen, stalled).
        max_scroll cfg - i)") auto

declare scroll_loop.simps [simp del]

definition run ::
  "scroll_config \<Rightarrow> env \<Rightarrow> (nat \<Rightarrow> nat \<Rightarrow> int) \<Rightarrow> (nat \<Rightarrow> element) \<Rightarrow> int \<Rightarrow>
     pyerr option \<times> facebook_post list \<times> nat" where
  "run cfg ev clocks pages max_posts = scroll_loop cfg ev clocks pages max_posts 0 [] {} 0"

section \<open>Sample pages\<close>

text \<open>
  Concrete handles for the evaluations below. \<open>sample_article data_ft body post_url
  utime\<close> is an article with the given metadata attribute, one text container with the
  given text, one permalink and one time node carrying \<^verbatim>\<open>data-utime\<close>, each
  optional; every read succeeds. \<open>broken_article\<close> is an article whose reads raise.
\<close>

definition text_node :: "string \<Rightarrow> element" where
  "text_node t = Element (\<lambda>_. Inr None) (Inr t) (\<lambda>_. Inr None) (\<lambda>_. Inr [])"

definition link_node :: "string \<Rightarrow> element" where
  "link_node href =
     Element (\<lambda>name. Inr (if name = ''href'' then Some href else None)) (Inr [])
       (\<lambda>_. Inr None) (\<lambda>_. Inr [])"

definition time_node :: "string \<Rightarrow> element" where
  "time_node utime =
     Element (\<lambda>name. Inr (if name = ''data-utime'' then Some utime else None)) (Inr [])
       (\<lambda>_. Inr None) (\<lambda>_. Inr [])"

definition sample_article ::
  "string option \<Rightarrow> string option \<Rightarrow> string option \<Rightarrow> string option \<Rightarrow> element" where
  "sample_article data_ft body post_url utime =
     Element
       (\<lambda>name. Inr (if name = ''data-ft'' then data_ft else None))
       (Inr (or_empty body))
       (\<lambda>selector. Inr
          (if selector = ''div[dir='auto'] span, div[dir='auto']''
           then map_option text_node body
           else if selector = ''a[href*='/posts/'], a[href*='pfbid']''
           then map_option link_node post_url
           else if selector = ''a[aria-label*=' at '], a[role='link'] time''
           then map_option time_node utime
           else None))
       (\<lambda>selector. Inr
          (if selector = ''span[dir='auto'], div[dir='auto']''
           then (case body of None \<Rightarrow> [] | Some t \<Rightarrow> [text_node t])
           else []))"

definition broken_article :: element where
  "broken_article =
     Element (\<lambda>_. Inl PlaywrightError) (Inl PlaywrightError)
       (\<lambda>_. Inl PlaywrightError) (\<lambda>_. Inl PlaywrightError)"

definition sample_page :: "element list \<Rightarrow> element" where
  "sample_page articles =
     Element (\<lambda>_. Inr None) (Inr [])  (\<lambda>_. Inr None)
       (\<lambda>selector. Inr (if selector = ''div[role='article']'' then articles else []))"

text \<open>
  Three metadata documents: \<^verbatim>\<open>{"top_level_post_id": "abc123"}\<close>,
  \<^verbatim>\<open>{"top_level_post_id": null, "mf_story_key": "s1"}\<close> and
  \<^verbatim>\<open>{"top_level_post_id": ""}\<close>; and an environment whose loader knows these
  documents and raises on every other string, around any hash, with the default limit
  on the digits of an integer. \<open>length_hash\<close> is a hash for the evaluations.
\<close>

definition quoted :: "string \<Rightarrow> string" where
  "quoted s = CHR 0x22 # s @ [CHR 0x22]"

definition abc123_raw :: string where
  "abc123_raw = ''{'' @ quoted ''top_level_post_id'' @ '': '' @ quoted ''abc123'' @ ''}''"

definition null_id_raw :: string where
  "null_id_raw =
     ''{'' @ quoted ''top_level_post_id'' @ '': null, '' @
     quoted ''mf_story_key'' @ '': '' @ quoted ''s1'' @ ''}''"

definition empty_id_raw :: string where
  "empty_id_raw = ''{'' @ quoted ''top_level_post_id'' @ '': '' @ quoted [] @ ''}''"

definition sample_env :: "(string \<Rightarrow> int) \<Rightarrow> env" where
  "sample_env h =
     \<lparr> json_loads =
         (\<lambda>raw.
            if raw = abc123_raw
            then Some (JsonDict [''top_level_post_id'' \<mapsto> PyStr ''abc123''])
            else if raw = null_id_raw
            then Some (JsonDict [''top_level_post_id'' \<mapsto> PyNone,
                                 ''mf_story_key'' \<mapsto> PyStr ''s1''])
            else if raw = empty_id_raw
            then Some (JsonDict [''top_level_post_id'' \<mapsto> PyStr []])
            else None),
       py_hash = h,
       int_max_str_digits = 4300 \<rparr>"

definition length_hash :: "string \<Rightarrow> int" where
  "length_hash s = int (length s)"

section \<open>Properties of the engagement-count parser\<close>

lemmas float_defs =
  py_float_def round_to_double_def floor_log2_def round_half_even_def float_mul_def
  py_int_def digits_to_nat_def digit_val_def is_digit_def

lemmas parse_number_defs =
  parse_engagement_number_def search_number_def is_number_char_def float_defs

lemmas sample_defs =
  sample_article_def text_node_def link_node_def time_node_def sample_page_def
  broken_article_def sample_env_def abc123_raw_def null_id_raw_def empty_id_raw_def
  quoted_def length_hash_def

lemmas article_defs =
  parse_article_def await_def load_data_ft_def read_page_link_def read_post_link_def
  read_time_def read_inner_text_def read_attribute_def parse_engagement_def
  safe_get_nested_def truthy_def or_empty_def isdigit_def int_of_digits_def py_strip_def
  py_lower_def to_lower_def is_space_def

lemma parse_engagement_number_examples:
  "parse_engagement_number ''2.4K'' = Inr (Some 2400)
   \<and> parse_engagement_number ''1,234'' = Inr (Some 1234)
   \<and> parse_engagement_number ''no data'' = Inr None"
  by (simp add: parse_number_defs Let_def)

text \<open>
  C1: the parser is specified to map \<^verbatim>\<open>"2.4K"\<close> to 2400, \<^verbatim>\<open>"1,234"\<close> to 1234,
  \<^verbatim>\<open>"15 Comments"\<close> to 15 and \<^verbatim>\<open>"no data"\<close> to null, the scale being applied only
  for a letter that trails the number. The first, second and fourth hold, as shown
  above. On \<^verbatim>\<open>"15 Comments"\<close> the code finds the \<^verbatim>\<open>m\<close> of
  \<^verbatim>\<open>Comments\<close> and returns fifteen million.
\<close>

theorem parse_engagement_number_15_Comments:
  "parse_engagement_number ''15 Comments'' = Inr (Some 15000000)"
  by (simp add: parse_number_defs Let_def)

section \<open>Properties of the extraction loop\<close>

lemma parse_hello:
  "parse_article ev now (sample_article None (Some ''hello'') None None) =
     Inr \<lparr> facebookUrl = None, pageId = None, postId = None, pageName = None, url = None,
           time = None, timestamp = Some now, likes = None, comments = None, shares = None,
           post_text = Some ''hello'', link = None, thumb = None, topLevelUrl = None \<rparr>"
  by (simp add: article_defs sample_defs Let_def parse_number_defs)

lemma parse_abc123:
  "parse_article (sample_env h) now (sample_article (Some abc123_raw) None None None) =
     Inr \<lparr> facebookUrl = None, pageId = None, postId = Some ''abc123'', pageName = None,
           url = None, time = None, timestamp = Some now, likes = None, comments = None,
           shares = None, post_text = None, link = None, thumb = None, topLevelUrl = None \<rparr>"
  by (simp add: article_defs sample_defs Let_def py_str_def)

lemma parse_broken: "parse_article ev now broken_article = Inl PlaywrightError"
  by (simp add: parse_article_def await_def broken_article_def)

lemma try_article_Admitted:
  "try_article ev seen a = Admitted pid post \<Longrightarrow> postId post = Some pid \<and> pid \<notin> seen"
  by (auto simp: try_article_def split: sum.splits option.splits if_splits)

text \<open>
  The loop only appends; what it appends has pairwise distinct identifiers, none of
  them in the set before, and they are what the set gains.
\<close>

lemma extract_loop_appends:
  "\<exists>new. fst (extract_loop ev lim as seen posts) = posts @ new
     \<and> Some ` snd (extract_loop ev lim as seen posts) = Some ` seen \<union> set (map postId new)
     \<and> distinct (map postId new)
     \<and> set (map postId new) \<inter> Some ` seen = {}"
proof (induction as arbitrary: seen posts)
  case Nil
  show ?case by simp
next
  case (Cons a as)
  show ?case
  proof (cases "try_article ev seen a")
    case Skipped
    then show ?thesis using Cons.IH[of seen posts] by simp
  next
    case (Raised err)
    then show ?thesis using Cons.IH[of seen posts] by (cases "limit_reached lim posts") auto
  next
    case (Admitted pid post)
    note adm = try_article_Admitted[OF Admitted]
    show ?thesis
    proof (cases "limit_reached lim (posts @ [post])")
      case True
      then show ?thesis using Admitted adm
        by (intro exI[of _ "[post]"]) auto
    next
      case False
      from Cons.IH[of "insert pid seen" "posts @ [post]"]
      obtain new where n:
        "fst (extract_loop ev lim as (insert pid seen) (posts @ [post])) = (posts @ [post]) @ new"
        "Some ` snd (extract_loop ev lim as (insert pid seen) (posts @ [post])) =
           Some ` insert pid seen \<union> set (map postId new)"
        "distinct (map postId new)"
        "set (map postId new) \<inter> Some ` insert pid seen = {}"
        by blast
      show ?thesis using Admitted adm False n
        by (intro exI[of _ "post # new"]) auto
    qed
  qed
qed

lemma extract_posts_appends:
  assumes "extract_posts ev clock page (Some seen) lim = Inr (posts, seen')"
  shows "Some ` seen' = Some ` seen \<union> set (map postId posts)
     \<and> distinct (map postId posts) \<and> set (map postId posts) \<inter> Some ` seen = {}"
proof -
  from assms obtain hs where
    r: "extract_loop ev lim (zip hs (map clock [0 ..< length hs])) seen [] = (posts, seen')"
    by (auto simp: extract_posts_def await_def split: sum.splits)
  from extract_loop_appends[of ev lim "zip hs (map clock [0 ..< length hs])" seen "[]"] r
  show ?thesis by auto
qed

lemma extract_posts_nothing_admitted:
  assumes "extract_posts ev clock page (Some seen) lim = Inr ([], seen')"
  shows "seen' = seen"
proof -
  from extract_posts_appends[OF assms] have "Some ` seen' = Some ` seen" by simp
  then show ?thesis by (simp add: inj_image_eq_iff)
qed

text \<open>An article that is passed over in every state can be left out of the page.\<close>

lemma extract_loop_skipped_block:
  assumes "\<And>seen. try_article ev seen b = Skipped"
  shows "extract_loop ev lim (bs1 @ b # bs2) seen posts =
         extract_loop ev lim (bs1 @ bs2) seen posts"
proof (induction bs1 arbitrary: seen posts)
  case Nil
  show ?case using assms by simp
next
  case (Cons a bs1)
  show ?case by (cases "try_article ev seen a") (simp_all add: Cons)
qed

text \<open>So can an article whose parse raises, in a loop that has not reached its limit.\<close>

lemma extract_loop_raised_block:
  assumes "\<And>seen. try_article ev seen b = Raised err" and "\<not> limit_reached lim posts"
  shows "extract_loop ev lim (bs1 @ b # bs2) seen posts =
         extract_loop ev lim (bs1 @ bs2) seen posts"
  using assms(2)
proof (induction bs1 arbitrary: seen posts)
  case Nil
  then show ?case using assms(1) by simp
next
  case (Cons a bs1)
  show ?case using Cons.prems by (cases "try_article ev seen a") (simp_all add: Cons.IH)
qed

subsection \<open>The limit of a pass\<close>

text \<open>From a state below a limit \<open>m\<close>, the loop returns at most \<open>m\<close> records.\<close>

lemma extract_loop_limit:
  "int (length posts) < m \<Longrightarrow>
     int (length (fst (extract_loop ev (Some m) as seen posts))) \<le> m"
proof (induction as arbitrary: seen posts)
  case Nil
  then show ?case by simp
next
  case (Cons a as)
  show ?case
  proof (cases "try_article ev seen a")
    case Skipped
    then show ?thesis using Cons by simp
  next
    case (Raised err)
    then show ?thesis using Cons by (simp add: limit_reached_def)
  next
    case (Admitted pid post)
    then show ?thesis using Cons.prems Cons.IH[of "posts @ [post]" "insert pid seen"]
      by (auto simp: limit_reached_def)
  qed
qed

text \<open>With a limit of at least one, a pass returns at most that many records.\<close>

theorem extract_posts_positive_limit:
  assumes "1 \<le> m"
    and "extract_posts ev clock page seen_post_ids (Some m) = Inr (posts, seen')"
  shows "int (length posts) \<le> m"
proof -
  from assms(2) obtain hs seen where
    r: "extract_loop ev (Some m) (zip hs (map clock [0 ..< length hs])) seen [] = (posts, seen')"
    by (auto simp: extract_posts_def await_def Let_def split: sum.splits)
  have "int (length ([] :: facebook_post list)) < m" using assms(1) by simp
  from extract_loop_limit[OF this, of ev "zip hs (map clock [0 ..< length hs])" seen] r
  show ?thesis by simp
qed

theorem extract_posts_positive_limit_witness:
  "extract_posts (sample_env (\<lambda>_. 0)) (\<lambda>i. 1700000000 + int i)
     (sample_page [sample_article None (Some ''hello'') None None,
                   sample_article (Some abc123_raw) None None None])
     None (Some 1) =
   Inr ([\<lparr> facebookUrl = None, pageId = None, postId = Some ''0'', pageName = None,
           url = None, time = None, timestamp = Some 1700000000, likes = None,
           comments = None, shares = None, post_text = Some ''hello'', link = None,
           thumb = None, topLevelUrl = None \<rparr>], {''0''})
   \<and> int (length [\<lparr> facebookUrl = None, pageId = None, postId = Some ''0'',
           pageName = None, url = None, time = None, timestamp = Some 1700000000,
           likes = None, comments = None, shares = None, post_text = Some ''hello'',
           link = None, thumb = None, topLevelUrl = None \<rparr>]) \<le> 1"
proof -
  have e: "extract_posts (sample_env (\<lambda>_. 0)) (\<lambda>i. 1700000000 + int i)
     (sample_page [sample_article None (Some ''hello'') None None,
                   sample_article (Some abc123_raw) None None None])
     None (Some 1) =
   Inr ([\<lparr> facebookUrl = None, pageId = None, postId = Some ''0'', pageName = None,
           url = None, time = None, timestamp = Some 1700000000, likes = None,
           comments = None, shares = None, post_text = Some ''hello'', link = None,
           thumb = None, topLevelUrl = None \<rparr>], {''0''})"
    by (simp add: extract_posts_def sample_page_def await_def try_article_def parse_hello
        resolve_post_id_def limit_reached_def truthy_def or_empty_def py_strip_def
        is_space_def Let_def sample_env_def str_int_def upt_rec)
  have m: "(1::int) \<le> 1" by simp
  from extract_posts_positive_limit[OF m e] e show ?thesis by simp
qed

text \<open>
  C2: a pass is specified to admit at most \<open>limit\<close> records for every non-negative
  limit, and none with the limit 0. The test of line 77 comes after an article has
  been processed, so a pass with the limit 0 on a page with one article that has a
  text admits that article.
\<close>

theorem extract_posts_limit_zero_admits:
  "extract_posts ev clock (sample_page [sample_article None (Some ''hello'') None None])
     None (Some 0) =
   Inr ([\<lparr> facebookUrl = None, pageId = None,
           postId = Some (str_int \<bar>py_hash ev ''hello''\<bar>), pageName = None, url = None,
           time = None, timestamp = Some (clock 0), likes = None, comments = None,
           shares = None, post_text = Some ''hello'', link = None, thumb = None,
           topLevelUrl = None \<rparr>],
        {str_int \<bar>py_hash ev ''hello''\<bar>})"
  by (simp add: extract_posts_def sample_page_def await_def try_article_def parse_hello
      resolve_post_id_def limit_reached_def truthy_def or_empty_def py_strip_def
      is_space_def Let_def)

subsection \<open>Identifiers are unique in a session\<close>

text \<open>
  C3: for every sequence of passes that share one set of seen identifiers, every
  identifier occurs at most once in the concatenation of the returned lists; no
  returned record carries an identifier that was in the set before the session; and
  the set after the session is the set before it together with the identifiers of the
  returned records.
\<close>

theorem session_post_ids_unique:
  "distinct (map postId (concat (fst (session ev passes seen))))
   \<and> set (map postId (concat (fst (session ev passes seen)))) \<inter> Some ` seen = {}
   \<and> Some ` snd (session ev passes seen) =
       Some ` seen \<union> set (map postId (concat (fst (session ev passes seen))))"
proof (induction passes arbitrary: seen)
  case Nil
  show ?case by simp
next
  case (Cons p passes)
  obtain clock page lim where p: "p = (clock, page, lim)" by (cases p) auto
  show ?case
  proof (cases "extract_posts ev clock page (Some seen) lim")
    case (Inl err)
    then show ?thesis using p by simp
  next
    case (Inr r)
    obtain posts seen' where r: "r = (posts, seen')" by (cases r) auto
    note a = extract_posts_appends[OF Inr[unfolded r]]
    note ih = Cons.IH[of seen']
    have s: "session ev (p # passes) seen =
        (posts # fst (session ev passes seen'), snd (session ev passes seen'))"
      using p Inr r by simp
    define A where "A = map postId posts"
    define B where "B = map postId (concat (fst (session ev passes seen')))"
    have c: "map postId (concat (fst (session ev (p # passes) seen))) = A @ B"
      unfolding s A_def B_def by simp
    have f: "snd (session ev (p # passes) seen) = snd (session ev passes seen')"
      unfolding s by simp
    from a have a': "Some ` seen' = Some ` seen \<union> set A" "distinct A"
      "set A \<inter> Some ` seen = {}"
      unfolding A_def by simp_all
    from ih have b': "distinct B" "set B \<inter> Some ` seen' = {}"
      "Some ` snd (session ev passes seen') = Some ` seen' \<union> set B"
      unfolding B_def by simp_all
    have "set A \<inter> set B = {}" using a'(1) b'(2) by blast
    then have "distinct (A @ B)" using a'(2) b'(1) by simp
    moreover have "set (A @ B) \<inter> Some ` seen = {}" using a'(1,3) b'(2) by auto
    moreover have "Some ` snd (session ev passes seen') = Some ` seen \<union> set (A @ B)"
      using a'(1) b'(3) by auto
    ultimately show ?thesis unfolding c f by blast
  qed
qed

text \<open>The same page shown in two passes: the second pass returns nothing.\<close>

theorem session_post_ids_unique_witness:
  "session (sample_env (\<lambda>_. 0))
     [(\<lambda>_. 1700000000, sample_page [sample_article (Some abc123_raw) None None None], None),
      (\<lambda>_. 1700000060, sample_page [sample_article (Some abc123_raw) None None None], None)]
     {} =
   ([[\<lparr> facebookUrl = None, pageId = None, postId = Some ''abc123'', pageName = None,
         url = None, time = None, timestamp = Some 1700000000, likes = None,
         comments = None, shares = None, post_text = None, link = None, thumb = None,
         topLevelUrl = None \<rparr>], []], {''abc123''})"
  using session_post_ids_unique[of "sample_env (\<lambda>_. 0)"
      "[(\<lambda>_. 1700000000, sample_page [sample_article (Some abc123_raw) None None None], None),
        (\<lambda>_. 1700000060, sample_page [sample_article (Some abc123_raw) None None None], None)]"
      "{}"]
  by (simp add: extract_posts_def await_def sample_page_def try_article_def parse_abc123
      resolve_post_id_def truthy_def limit_reached_def)

subsection \<open>The timestamp\<close>

text \<open>
  A \<^verbatim>\<open>data-utime\<close> of the digits \<^verbatim>\<open>0\<close> to \<^verbatim>\<open>9\<close>, within the
  interpreter's limit on the digits of an integer and with a value that is not zero,
  becomes the timestamp.
\<close>

lemma read_time_utime:
  assumes "get_attribute tn ''data-utime'' = Inr (Some a)"
    and "a \<noteq> []" and "list_all is_digit a"
    and "int_max_str_digits ev = 0 \<or> length a \<le> int_max_str_digits ev"
    and "digits_to_nat a \<noteq> 0"
  shows "snd (read_time ev now (Some tn)) = int (digits_to_nat a)"
proof -
  have d: "isdigit a" using assms(2,3) by (simp add: isdigit_def list_all_iff)
  have i: "int_of_digits (int_max_str_digits ev) a = Inr (int (digits_to_nat a))"
    using assms(3,4) by (auto simp: int_of_digits_def)
  show ?thesis
    using assms(1,2,5) d i by (simp add: read_time_def Let_def truthy_def or_empty_def)
qed

lemma parse_article_timestamp:
  assumes "parse_article ev now article = Inr post"
    and "query_selector article ''a[aria-label*=' at '], a[role='link'] time'' = Inr tn"
  shows "timestamp post = Some (snd (read_time ev now tn))"
  using assms
  by (auto simp: parse_article_def await_def Let_def split: sum.splits prod.splits)

theorem parse_article_utime_nonzero:
  assumes "parse_article ev now article = Inr post"
    and "query_selector article ''a[aria-label*=' at '], a[role='link'] time'' = Inr (Some tn)"
    and "get_attribute tn ''data-utime'' = Inr (Some a)"
    and "a \<noteq> []" and "list_all is_digit a"
    and "int_max_str_digits ev = 0 \<or> length a \<le> int_max_str_digits ev"
    and "digits_to_nat a \<noteq> 0"
  shows "timestamp post = Some (int (digits_to_nat a))"
  using parse_article_timestamp[OF assms(1,2)] read_time_utime[OF assms(3-7), of now]
  by simp

theorem parse_article_utime_nonzero_witness:
  "timestamp \<lparr> facebookUrl = None, pageId = None, postId = None, pageName = None,
       url = None, time = Some [], timestamp = Some 1700000000, likes = None,
       comments = None, shares = None, post_text = Some ''hello'', link = None,
       thumb = None, topLevelUrl = None \<rparr> = Some 1700000000
   \<and> parse_article (sample_env length_hash) 1800000000
       (sample_article None (Some ''hello'') None (Some ''1700000000'')) =
     Inr \<lparr> facebookUrl = None, pageId = None, postId = None, pageName = None,
       url = None, time = Some [], timestamp = Some 1700000000, likes = None,
       comments = None, shares = None, post_text = Some ''hello'', link = None,
       thumb = None, topLevelUrl = None \<rparr>"
proof -
  let ?a = "sample_article None (Some ''hello'') None (Some ''1700000000'')"
  have h1: "parse_article (sample_env length_hash) 1800000000 ?a =
     Inr \<lparr> facebookUrl = None, pageId = None, postId = None, pageName = None,
       url = None, time = Some [], timestamp = Some 1700000000, likes = None,
       comments = None, shares = None, post_text = Some ''hello'', link = None,
       thumb = None, topLevelUrl = None \<rparr>"
    by (simp add: article_defs sample_defs Let_def parse_number_defs)
  have h2: "query_selector ?a ''a[aria-label*=' at '], a[role='link'] time'' =
              Inr (Some (time_node ''1700000000''))"
    by (simp add: sample_article_def)
  have h3: "get_attribute (time_node ''1700000000'') ''data-utime'' = Inr (Some ''1700000000'')"
    by (simp add: time_node_def)
  have h4: "''1700000000'' \<noteq> []" "list_all is_digit ''1700000000''"
    by (simp_all add: is_digit_def)
  have h5: "int_max_str_digits (sample_env length_hash) = 0
     \<or> length ''1700000000'' \<le> int_max_str_digits (sample_env length_hash)"
    by (simp add: sample_env_def)
  have h6: "digits_to_nat ''1700000000'' \<noteq> 0" by (simp add: digits_to_nat_def digit_val_def)
  from parse_article_utime_nonzero[OF h1 h2 h3 h4 h5 h6] h1 show ?thesis by simp
qed

text \<open>
  C4: a \<^verbatim>\<open>data-utime\<close> that consists of digits is specified to be the timestamp,
  also for \<^verbatim>\<open>"0"\<close>. The code parses \<^verbatim>\<open>"0"\<close> to 0, and the test
  \<^verbatim>\<open>if not timestamp\<close> of line 138 then replaces it by the clock.
\<close>

theorem parse_article_utime_zero:
  "parse_article ev now (sample_article None (Some ''hello'') None (Some ''0'')) =
     Inr \<lparr> facebookUrl = None, pageId = None, postId = None, pageName = None, url = None,
           time = Some [], timestamp = Some now, likes = None, comments = None,
           shares = None, post_text = Some ''hello'', link = None, thumb = None,
           topLevelUrl = None \<rparr>"
  by (simp add: article_defs sample_defs Let_def parse_number_defs)

subsection \<open>The identifier of a post\<close>


lemma py_hash_sample_env: "py_hash (sample_env h) = h"
  by (simp add: sample_env_def)






lemma try_article_unidentifiable:
  assumes "parse_article ev now article = Inr post" and "\<not> truthy (postId post)"
    and "\<not> truthy (post_text post)" and "\<not> truthy (url post)"
  shows "try_article ev seen (article, now) = Skipped"
  using assms
  by (auto simp: try_article_def resolve_post_id_def truthy_def or_empty_def py_strip_def
      split: option.splits)

text \<open>
  C6: an article whose parse yields no identifier from the metadata, no text and no
  post URL (each absent or empty) is never admitted: processed from any state of the
  loop it leaves the list and the set as they are, and a page with it gives the same
  result as the page without it.
\<close>

theorem unidentifiable_block_never_admitted:
  assumes "parse_article ev now article = Inr post" and "\<not> truthy (postId post)"
    and "\<not> truthy (post_text post)" and "\<not> truthy (url post)"
  shows "extract_loop ev lim [(article, now)] seen posts = (posts, seen)
     \<and> extract_loop ev lim (bs1 @ (article, now) # bs2) seen posts =
         extract_loop ev lim (bs1 @ bs2) seen posts"
proof -
  have sk: "\<And>seen. try_article ev seen (article, now) = Skipped"
    by (rule try_article_unidentifiable[OF assms])
  show ?thesis
    using extract_loop_skipped_block[of ev "(article, now)" lim bs1 bs2 seen posts, OF sk] sk
    by simp
qed

theorem unidentifiable_block_never_admitted_witness:
  "extract_loop (sample_env (\<lambda>_. 0)) (Some 5)
     [(sample_article None None None None, 1700000000)] {''abc123''} [] = ([], {''abc123''})"
proof -
  let ?ev = "sample_env (\<lambda>_. 0)"
  let ?a = "sample_article None None None None"
  let ?p = "\<lparr> facebookUrl = None, pageId = None, postId = None, pageName = None,
       url = None, time = None, timestamp = Some 1700000000, likes = None, comments = None,
       shares = None, post_text = None, link = None, thumb = None, topLevelUrl = None \<rparr>"
  have h1: "parse_article ?ev 1700000000 ?a = Inr ?p"
    by (simp add: article_defs sample_defs Let_def)
  have h2: "\<not> truthy (postId ?p)" "\<not> truthy (post_text ?p)" "\<not> truthy (url ?p)"
    by (simp_all add: truthy_def)
  from unidentifiable_block_never_admitted[OF h1 h2, of "Some 5" "{''abc123''}" "[]" "[]" "[]"]
  show ?thesis by simp
qed

text \<open>
  C7: the synthesized identifier is stable within a session. The hash of the
  interpreter is salted once per process, so one environment stands for one session.
  Two parses under it (of one article shown twice, or of two articles) that yield the
  same text and the same URL, not both blank, and no identifier from the metadata,
  both produce the identifier \<^verbatim>\<open>str(abs(hash(text + url)))\<close>, whatever the clock,
  the other fields and the sets of seen identifiers are, and each is admitted under it
  where it is not yet seen.
\<close>

theorem synthesized_id_deterministic:
  assumes "parse_article ev now_a article_a = Inr post_a" and "parse_article ev now_b article_b = Inr post_b"
    and "\<not> truthy (postId post_a)" and "\<not> truthy (postId post_b)"
    and "post_text post_a = post_text post_b" and "url post_a = url post_b"
    and "py_strip (or_empty (post_text post_a) @ or_empty (url post_a)) \<noteq> []"
    and "pid = str_int \<bar>py_hash ev (or_empty (post_text post_a) @ or_empty (url post_a))\<bar>"
    and "pid \<notin> seen_a" and "pid \<notin> seen_b"
  shows "resolve_post_id ev post_a = Some pid \<and> resolve_post_id ev post_b = Some pid
     \<and> try_article ev seen_a (article_a, now_a) = Admitted pid (post_a\<lparr>postId := Some pid\<rparr>)
     \<and> try_article ev seen_b (article_b, now_b) = Admitted pid (post_b\<lparr>postId := Some pid\<rparr>)"
proof -
  have r1: "resolve_post_id ev post_a = Some pid"
    using assms(3,7,8) by (simp add: resolve_post_id_def Let_def)
  have r2: "resolve_post_id ev post_b = Some pid"
    using assms(4,5,6,7,8) by (simp add: resolve_post_id_def Let_def)
  have t1: "try_article ev seen_a (article_a, now_a) = Admitted pid (post_a\<lparr>postId := Some pid\<rparr>)"
    using assms(1,9) r1 by (simp add: try_article_def)
  have t2: "try_article ev seen_b (article_b, now_b) = Admitted pid (post_b\<lparr>postId := Some pid\<rparr>)"
    using assms(2,10) r2 by (simp add: try_article_def)
  show ?thesis using r1 r2 t1 t2 by simp
qed

lemma parse_hello_post:
  "parse_article ev now (sample_article None (Some ''hello'') (Some ''/posts/1'') None) =
     Inr \<lparr> facebookUrl = None, pageId = None, postId = None, pageName = None,
           url = Some ''/posts/1'', time = None, timestamp = Some now, likes = None,
           comments = None, shares = None, post_text = Some ''hello'', link = None,
           thumb = None, topLevelUrl = Some ''/posts/1'' \<rparr>"
  by (simp add: article_defs sample_defs Let_def parse_number_defs)

theorem synthesized_id_deterministic_witness:
  "try_article (sample_env length_hash) {}
     (sample_article None (Some ''hello'') (Some ''/posts/1'') None, 1700000000) =
   Admitted ''13''
     \<lparr> facebookUrl = None, pageId = None, postId = Some ''13'', pageName = None,
       url = Some ''/posts/1'', time = None, timestamp = Some 1700000000, likes = None,
       comments = None, shares = None, post_text = Some ''hello'', link = None,
       thumb = None, topLevelUrl = Some ''/posts/1'' \<rparr>
   \<and> try_article (sample_env length_hash) {''abc123''}
     (sample_article None (Some ''hello'') (Some ''/posts/1'') None, 1700000060) =
   Admitted ''13''
     \<lparr> facebookUrl = None, pageId = None, postId = Some ''13'', pageName = None,
       url = Some ''/posts/1'', time = None, timestamp = Some 1700000060, likes = None,
       comments = None, shares = None, post_text = Some ''hello'', link = None,
       thumb = None, topLevelUrl = Some ''/posts/1'' \<rparr>"
  using synthesized_id_deterministic[where ev = "sample_env length_hash"
      and article_a = "sample_article None (Some ''hello'') (Some ''/posts/1'') None"
      and article_b = "sample_article None (Some ''hello'') (Some ''/posts/1'') None"
      and now_a = 1700000000 and now_b = 1700000060 and pid = "''13''"
      and seen_a = "{}" and seen_b = "{''abc123''}",
      OF parse_hello_post parse_hello_post]
  by (simp add: truthy_def or_empty_def py_strip_def is_space_def py_hash_sample_env
      length_hash_def str_int_def)

text \<open>Under another salt the same text gets another identifier.\<close>

lemma synthesized_id_depends_on_salt:
  "resolve_post_id (sample_env length_hash)
     \<lparr> facebookUrl = None, pageId = None, postId = None, pageName = None,
       url = None, time = None, timestamp = Some 1700000000, likes = None,
       comments = None, shares = None, post_text = Some ''hello'', link = None,
       thumb = None, topLevelUrl = None \<rparr> = Some ''5''
   \<and> resolve_post_id (sample_env (\<lambda>s. - 7 * length_hash s))
     \<lparr> facebookUrl = None, pageId = None, postId = None, pageName = None,
       url = None, time = None, timestamp = Some 1700000000, likes = None,
       comments = None, shares = None, post_text = Some ''hello'', link = None,
       thumb = None, topLevelUrl = None \<rparr> = Some ''35''"
  by (simp add: resolve_post_id_def truthy_def or_empty_def py_strip_def is_space_def
      py_hash_sample_env length_hash_def str_int_def)

lemma upt_Suc_shift: "[0 ..< Suc n] = 0 # map Suc [0 ..< n]"
  by (simp add: upt_conv_Cons map_Suc_upt del: upt_Suc)

lemma zip_clock_append:
  "zip (xs @ ys) (map f [0 ..< length xs + length ys]) =
   zip xs (map f [0 ..< length xs]) @ zip ys (map (\<lambda>i. f (length xs + i)) [0 ..< length ys])"
proof -
  define a b where "a = length xs" and "b = length ys"
  have "[a ..< b + a] = map (\<lambda>i. i + a) [0 ..< b]" by (rule map_add_upt[symmetric])
  then have s: "[a ..< a + b] = map (\<lambda>i. a + i) [0 ..< b]" by (simp only: add.commute)
  have "[0 ..< a + b] = [0 ..< a] @ [a ..< a + b]" by (rule upt_add_eq_append) simp
  then have "map f [0 ..< a + b] = map f [0 ..< a] @ map (\<lambda>i. f (a + i)) [0 ..< b]"
    unfolding s by (simp only: map_append map_map comp_def)
  then show ?thesis unfolding a_def b_def by simp
qed

text \<open>
  C8: a failure while one article is parsed ends that article only. When the query for
  the articles returns and the parse of one of them raises, in a pass whose limit is
  not reached at its start (no limit, or a limit of at least one),
  \<^verbatim>\<open>extract_posts\<close> returns, with no exception, the list and the set that the loop
  produces on the other articles alone, the ones before and the ones after the failing
  one, each parsed at its own clock reading.
\<close>

theorem block_failure_is_local:
  assumes "query_selector_all page ''div[role='article']'' = Inr (before @ a # after)"
    and "parse_article ev (clock (length before)) a = Inl err"
    and "\<not> limit_reached lim []"
  shows "extract_posts ev clock page seen_post_ids lim =
     Inr (extract_loop ev lim
            (zip (before @ after)
               (map (\<lambda>i. if i < length before then clock i else clock (Suc i))
                  [0 ..< length before + length after]))
            (case seen_post_ids of None \<Rightarrow> {} | Some s \<Rightarrow> s) [])"
proof -
  define seen where "seen = (case seen_post_ids of None \<Rightarrow> {} | Some s \<Rightarrow> s)"
  define c' where "c' = (\<lambda>i. if i < length before then clock i else clock (Suc i))"
  define pre where "pre = zip before (map clock [0 ..< length before])"
  define rest where
    "rest = zip after (map (\<lambda>i. clock (Suc (length before + i))) [0 ..< length after])"
  have r: "\<And>seen. try_article ev seen (a, clock (length before)) = Raised err"
    using assms(2) by (simp add: try_article_def)
  have "zip (a # after) (map (\<lambda>i. clock (length before + i)) [0 ..< Suc (length after)]) =
        (a, clock (length before)) # rest"
    unfolding rest_def upt_Suc_shift by (simp add: comp_def)
  then have with_a: "zip (before @ a # after) (map clock [0 ..< length before + Suc (length after)]) =
        pre @ (a, clock (length before)) # rest"
    using zip_clock_append[of before "a # after" clock] unfolding pre_def by (simp del: upt_Suc)
  have m1: "map c' [0 ..< length before] = map clock [0 ..< length before]"
    unfolding c'_def by (rule map_cong) auto
  have m2: "map (\<lambda>i. c' (length before + i)) [0 ..< length after] =
            map (\<lambda>i. clock (Suc (length before + i))) [0 ..< length after]"
    unfolding c'_def by (rule map_cong) auto
  have without_a: "zip (before @ after) (map c' [0 ..< length before + length after]) = pre @ rest"
    unfolding zip_clock_append[of before after c'] m1 m2 pre_def rest_def ..
  have "extract_posts ev clock page seen_post_ids lim =
        Inr (extract_loop ev lim (pre @ (a, clock (length before)) # rest) seen [])"
    using assms(1) with_a unfolding seen_def
    by (simp add: extract_posts_def await_def Let_def del: upt_Suc)
  also have "extract_loop ev lim (pre @ (a, clock (length before)) # rest) seen [] =
        extract_loop ev lim (pre @ rest) seen []"
    by (rule extract_loop_raised_block[OF r assms(3)])
  finally show ?thesis unfolding without_a[symmetric] c'_def seen_def .
qed

theorem block_failure_is_local_witness:
  "extract_posts (sample_env length_hash) (\<lambda>i. 1700000000 + int i)
     (sample_page [broken_article, sample_article (Some abc123_raw) None None None])
     None (Some 1) =
   Inr ([\<lparr> facebookUrl = None, pageId = None, postId = Some ''abc123'', pageName = None,
           url = None, time = None, timestamp = Some 1700000001, likes = None,
           comments = None, shares = None, post_text = None, link = None, thumb = None,
           topLevelUrl = None \<rparr>], {''abc123''})"
  using block_failure_is_local[where before = "[]" and a = broken_article
      and after = "[sample_article (Some abc123_raw) None None None]"
      and clock = "\<lambda>i. 1700000000 + int i" and ev = "sample_env length_hash"
      and page = "sample_page [broken_article, sample_article (Some abc123_raw) None None None]"
      and lim = "Some 1" and seen_post_ids = None and err = PlaywrightError]
  by (simp add: sample_page_def parse_broken limit_reached_def try_article_def parse_abc123
      resolve_post_id_def truthy_def)

text \<open>
  C10: the synthesized identifier depends on the concatenation of text and URL only.
  Two articles without an identifier from the metadata whose text and URL concatenate
  to the same string that is not blank resolve to the same identifier; the first is
  admitted under it (when it is not yet seen), the second is then passed over as a
  duplicate, and a page with the two gives the first alone.
\<close>

theorem synthesized_id_not_injective:
  assumes "parse_article ev n1 a1 = Inr p1" and "parse_article ev n2 a2 = Inr p2"
    and "\<not> truthy (postId p1)" and "\<not> truthy (postId p2)"
    and "or_empty (post_text p1) @ or_empty (url p1) = base"
    and "or_empty (post_text p2) @ or_empty (url p2) = base"
    and "py_strip base \<noteq> []"
    and "pid = str_int \<bar>py_hash ev base\<bar>"
    and "pid \<notin> seen"
  shows "resolve_post_id ev p1 = Some pid \<and> resolve_post_id ev p2 = Some pid
     \<and> try_article ev seen (a1, n1) = Admitted pid (p1\<lparr>postId := Some pid\<rparr>)
     \<and> try_article ev (insert pid seen) (a2, n2) = Skipped
     \<and> extract_loop ev lim [(a1, n1), (a2, n2)] seen [] =
         ([p1\<lparr>postId := Some pid\<rparr>], insert pid seen)"
proof -
  have r1: "resolve_post_id ev p1 = Some pid" and r2: "resolve_post_id ev p2 = Some pid"
    using assms(3-8) by (simp_all add: resolve_post_id_def Let_def)
  have t1: "try_article ev seen (a1, n1) = Admitted pid (p1\<lparr>postId := Some pid\<rparr>)"
    using assms(1,9) r1 by (simp add: try_article_def)
  have t2: "try_article ev (insert pid seen) (a2, n2) = Skipped"
    using assms(2) r2 by (simp add: try_article_def)
  show ?thesis using r1 r2 t1 t2 by simp
qed

theorem synthesized_id_not_injective_witness:
  "(Some ''ab'', Some ''c'') \<noteq> (Some ''a'', Some ''bc'')
   \<and> extract_loop (sample_env (\<lambda>s. - int (length s))) None
       [(sample_article None (Some ''ab'') (Some ''c'') None, 1700000000),
        (sample_article None (Some ''a'') (Some ''bc'') None, 1700000001)] {} [] =
     ([\<lparr> facebookUrl = None, pageId = None, postId = Some ''3'', pageName = None,
         url = Some ''c'', time = None, timestamp = Some 1700000000, likes = None,
         comments = None, shares = None, post_text = Some ''ab'', link = None,
         thumb = None, topLevelUrl = Some ''c'' \<rparr>], {''3''})"
proof -
  let ?ev = "sample_env (\<lambda>s. - int (length s))"
  let ?p1 = "\<lparr> facebookUrl = None, pageId = None, postId = None, pageName = None,
         url = Some ''c'', time = None, timestamp = Some 1700000000, likes = None,
         comments = None, shares = None, post_text = Some ''ab'', link = None,
         thumb = None, topLevelUrl = Some ''c'' \<rparr>"
  let ?p2 = "\<lparr> facebookUrl = None, pageId = None, postId = None, pageName = None,
         url = Some ''bc'', time = None, timestamp = Some 1700000001, likes = None,
         comments = None, shares = None, post_text = Some ''a'', link = None,
         thumb = None, topLevelUrl = Some ''bc'' \<rparr>"
  have h1: "parse_article ?ev 1700000000
              (sample_article None (Some ''ab'') (Some ''c'') None) = Inr ?p1"
    by (simp add: article_defs sample_defs Let_def parse_number_defs)
  have h2: "parse_article ?ev 1700000001
              (sample_article None (Some ''a'') (Some ''bc'') None) = Inr ?p2"
    by (simp add: article_defs sample_defs Let_def parse_number_defs)
  have h3: "\<not> truthy (postId ?p1)" "\<not> truthy (postId ?p2)" by (simp_all add: truthy_def)
  have h4: "or_empty (post_text ?p1) @ or_empty (url ?p1) = ''abc''"
    "or_empty (post_text ?p2) @ or_empty (url ?p2) = ''abc''" by (simp_all add: or_empty_def)
  have h5: "py_strip ''abc'' \<noteq> []" by (simp add: py_strip_def is_space_def)
  have h6: "''3'' = str_int \<bar>py_hash ?ev ''abc''\<bar>" by (simp add: sample_env_def str_int_def)
  have h7: "''3'' \<notin> ({} :: string set)" by simp
  from synthesized_id_not_injective[OF h1 h2 h3 h4 h5 h6 h7, of None]
  show ?thesis by simp
qed

section \<open>Properties of the scroll loop\<close>

lemma scroll_loop_stalled:
  assumes "stall_threshold cfg - stalled \<le> n"
    and "\<forall>j < max 1 (stall_threshold cfg - stalled). \<exists>seen'.
           extract_posts ev (clocks (i + j)) (pages (i + j)) (Some seen)
             (Some (max_posts - int (length results))) = Inr ([], seen')"
  shows "\<exists>k. 1 \<le> k \<and> k \<le> max 1 (stall_threshold cfg - stalled)
     \<and> scroll_loop cfg ev clocks pages max_posts i results seen stalled =
         (None, results, i + k)"
  using assms
proof (induction n arbitrary: i stalled)
  case 0
  from "0.prems"(2) obtain seen' where
    p: "extract_posts ev (clocks i) (pages i) (Some seen)
          (Some (max_posts - int (length results))) = Inr ([], seen')"
    by (auto dest: spec[of _ 0])
  have "scroll_loop cfg ev clocks pages max_posts i results seen stalled =
          (None, results, Suc i)"
    using "0.prems"(1) by (subst scroll_loop.simps) (simp add: p)
  then show ?case by (intro exI[of _ 1]) simp
next
  case (Suc n)
  from Suc.prems(2) obtain seen' where
    p: "extract_posts ev (clocks i) (pages i) (Some seen)
          (Some (max_posts - int (length results))) = Inr ([], seen')"
    by (auto dest: spec[of _ 0])
  have s: "seen' = seen" by (rule extract_posts_nothing_admitted[OF p])
  show ?case
  proof (cases "max_posts \<le> int (length results) \<or> max_scroll cfg \<le> Suc i
                \<or> stall_threshold cfg \<le> Suc stalled")
    case True
    have "scroll_loop cfg ev clocks pages max_posts i results seen stalled =
            (None, results, Suc i)"
      using True by (subst scroll_loop.simps) (auto simp: p)
    then show ?thesis by (intro exI[of _ 1]) simp
  next
    case False
    then have lt: "Suc stalled < stall_threshold cfg" by simp
    have step: "scroll_loop cfg ev clocks pages max_posts i results seen stalled =
                scroll_loop cfg ev clocks pages max_posts (Suc i) results seen (Suc stalled)"
      using False by (subst scroll_loop.simps) (simp add: p s)
    have a1: "stall_threshold cfg - Suc stalled \<le> n" using Suc.prems(1) by simp
    have a2: "\<forall>j < max 1 (stall_threshold cfg - Suc stalled). \<exists>seen'.
           extract_posts ev (clocks (Suc i + j)) (pages (Suc i + j)) (Some seen)
             (Some (max_posts - int (length results))) = Inr ([], seen')"
    proof (intro allI impI)
      fix j assume "j < max 1 (stall_threshold cfg - Suc stalled)"
      then have "Suc j < max 1 (stall_threshold cfg - stalled)" using lt by simp
      with Suc.prems(2) show "\<exists>seen'.
           extract_posts ev (clocks (Suc i + j)) (pages (Suc i + j)) (Some seen)
             (Some (max_posts - int (length results))) = Inr ([], seen')"
        by (auto dest!: spec[of _ "Suc j"])
    qed
    from Suc.IH[OF a1 a2] obtain k where
      k: "1 \<le> k" "k \<le> max 1 (stall_threshold cfg - Suc stalled)"
         "scroll_loop cfg ev clocks pages max_posts (Suc i) results seen (Suc stalled) =
            (None, results, Suc i + k)"
      by blast
    show ?thesis using k lt step by (intro exI[of _ "Suc k"]) simp
  qed
qed

text \<open>
  C9: the scroll loop ends on a stall. From any state of the loop, with \<open>stalled\<close>
  passes without a record behind it, if each of the next \<open>N - stalled\<close> passes (at
  least one) admits no record, where \<open>N\<close> is the stall threshold, then the loop ends
  after at most that many further iterations, which is at most \<open>N + 1\<close>, and returns
  the records accumulated so far, with no error.
\<close>

theorem stall_terminates_scroll_loop:
  assumes "\<forall>j < max 1 (stall_threshold cfg - stalled). \<exists>seen'.
           extract_posts ev (clocks (i + j)) (pages (i + j)) (Some seen)
             (Some (max_posts - int (length results))) = Inr ([], seen')"
  shows "\<exists>k. 1 \<le> k \<and> k \<le> max 1 (stall_threshold cfg - stalled)
     \<and> k \<le> stall_threshold cfg + 1
     \<and> scroll_loop cfg ev clocks pages max_posts i results seen stalled =
         (None, results, i + k)"
proof -
  from scroll_loop_stalled[OF order_refl assms] obtain k where
    "1 \<le> k" "k \<le> max 1 (stall_threshold cfg - stalled)"
    "scroll_loop cfg ev clocks pages max_posts i results seen stalled =
       (None, results, i + k)"
    by blast
  then show ?thesis by (intro exI[of _ k]) auto
qed

theorem stall_terminates_scroll_loop_witness:
  "\<exists>k. 1 \<le> k \<and> k \<le> 3 \<and>
     scroll_loop \<lparr> max_scroll = 10, stall_threshold = 2 \<rparr> (sample_env (\<lambda>_. 0))
       (\<lambda>_ _. 1700000000)
       (\<lambda>_. sample_page [sample_article (Some abc123_raw) None None None])
       5 1 [] {''abc123''} 0 = (None, [], 1 + k)"
proof -
  have e: "extract_posts (sample_env (\<lambda>_. 0)) (\<lambda>_. 1700000000)
        (sample_page [sample_article (Some abc123_raw) None None None])
        (Some {''abc123''}) (Some 5) = Inr ([], {''abc123''})"
    by (simp add: extract_posts_def await_def sample_page_def try_article_def parse_abc123
        resolve_post_id_def truthy_def)
  show ?thesis
    using stall_terminates_scroll_loop[where cfg = "\<lparr> max_scroll = 10, stall_threshold = 2 \<rparr>"
        and stalled = 0 and i = 1 and ev = "sample_env (\<lambda>_. 0)"
        and clocks = "\<lambda>_ _. 1700000000"
        and pages = "\<lambda>_. sample_page [sample_article (Some abc123_raw) None None None]"
        and seen = "{''abc123''}" and max_posts = 5 and results = "[]"]
    by (auto simp: e)
qed

text \<open>
  A whole session on a feed that keeps showing one post: the first pass admits it, the
  next two admit nothing, and the loop ends after three iterations.
\<close>

lemma run_stalls_after_three_iterations:
  "run \<lparr> max_scroll = 10, stall_threshold = 2 \<rparr> (sample_env (\<lambda>_. 0))
     (\<lambda>_ _. 1700000000)
     (\<lambda>_. sample_page [sample_article (Some abc123_raw) None None None]) 5 =
   (None,
    [\<lparr> facebookUrl = None, pageId = None, postId = Some ''abc123'', pageName = None,
       url = None, time = None, timestamp = Some 1700000000, likes = None, comments = None,
       shares = None, post_text = None, link = None, thumb = None, topLevelUrl = None \<rparr>],
    3)"
  by (simp add: run_def scroll_loop.simps extract_posts_def await_def sample_page_def
      try_article_def parse_abc123 resolve_post_id_def truthy_def limit_reached_def)

end
